theory Spec2Isabelle
  imports Complex_Main
begin

section \<open>Host objects\<close>

text \<open>
  The overlay runs in a browser page. The unsigned dimensions of canvases and images
  are naturals; the other numbers are the finite doubles, taken as the reals they denote
  (section \<open>Doubles\<close> says where the rounding of the arithmetic is modelled). Host
  objects are shared and mutable, so values hold references and the objects live in a
  store.
\<close>

type_synonym ref = nat

text \<open>
  A value handed to the \<open>Horn\<close> constructor: what matters of it is which
  \<open>instanceof\<close> test it passes and what \<open>typeof\<close> prints.
\<close>

datatype js_value =
    JS_undefined
  | JS_null
  | JS_object
  | JS_context ref
  | JS_image ref

fun typeof :: "js_value \<Rightarrow> string" where
  "typeof JS_undefined = ''undefined''"
| "typeof JS_null = ''object''"
| "typeof JS_object = ''object''"
| "typeof (JS_context c) = ''object''"
| "typeof (JS_image i) = ''object''"

datatype error = TypeError string | InvalidStateError

record canvas_element =
  canvas_width :: nat
  canvas_height :: nat
  clientWidth :: nat
  clientHeight :: nat

text \<open>
  An image element: its dimensions, and whether its request ended broken. The canvas
  interface refuses to draw a broken image by throwing \<open>InvalidStateError\<close>, and
  draws nothing (without an error) for an image that is not available yet.
\<close>

datatype image_state = Unavailable | Available | Broken

record image_element =
  image_width :: nat
  image_height :: nat
  image_state :: image_state

text \<open>
  The current transformation of a 2D context is kept as the sequence of the
  transformations applied to the identity; the saved states are a stack of them, the
  head being the top. The calls that paint are logged in order, each \<open>DrawImage\<close>
  with the transformation in force; \<open>ResetBitmap\<close> logs that a reset of the context
  has cleared the bitmap.
\<close>

datatype transformation = Translate real real | Rotate real

datatype paint =
    ClearRect real real real real
  | DrawImage ref "transformation list" real real real real
  | ResetBitmap

record context2d =
  canvas :: ref
  transform :: "transformation list"
  saved :: "transformation list list"
  painted :: "paint list"

record host =
  canvases :: "ref \<Rightarrow> canvas_element"
  contexts :: "ref \<Rightarrow> context2d"
  images :: "ref \<Rightarrow> image_element"

definition save :: "context2d \<Rightarrow> context2d" where
  "save c = c\<lparr>saved := transform c # saved c\<rparr>"

definition restore :: "context2d \<Rightarrow> context2d" where
  "restore c = (case saved c of [] \<Rightarrow> c | t # ts \<Rightarrow> c\<lparr>transform := t, saved := ts\<rparr>)"

definition translate :: "real \<Rightarrow> real \<Rightarrow> context2d \<Rightarrow> context2d" where
  "translate tx ty c = c\<lparr>transform := transform c @ [Translate tx ty]\<rparr>"

definition rotate :: "real \<Rightarrow> context2d \<Rightarrow> context2d" where
  "rotate a c = c\<lparr>transform := transform c @ [Rotate a]\<rparr>"

definition clearRect :: "real \<Rightarrow> real \<Rightarrow> real \<Rightarrow> real \<Rightarrow> context2d \<Rightarrow> context2d" where
  "clearRect rx ry rw rh c = c\<lparr>painted := painted c @ [ClearRect rx ry rw rh]\<rparr>"

text \<open>
  What the page does to a 2D context when the dimensions of its canvas are assigned: the
  context is reset to its default state, which empties the stack of saved states, sets
  the transformation to the identity and clears the bitmap.
\<close>

definition reset :: "context2d \<Rightarrow> context2d" where
  "reset c = c\<lparr>transform := [], saved := [], painted := painted c @ [ResetBitmap]\<rparr>"

text \<open>
  \<open>drawImage\<close> with a destination rectangle. An argument of the source that is not
  a finite number (\<open>NaN\<close> or an infinity) is \<open>None\<close> here; of the four arguments
  only the vertical ones can be so. The interface first returns, drawing nothing, when
  an argument is not finite; then it throws on a broken image, and draws nothing for an
  image that is not available.
\<close>

definition drawImage ::
  "ref \<Rightarrow> image_element \<Rightarrow> real \<Rightarrow> real option \<Rightarrow> real \<Rightarrow> real option \<Rightarrow> context2d
     \<Rightarrow> error + context2d" where
  "drawImage i img dx dy dw dh c =
     (case (dy, dh) of
        (Some y, Some ht) \<Rightarrow>
          (case image_state img of
             Broken \<Rightarrow> Inl InvalidStateError
           | Unavailable \<Rightarrow> Inr c
           | Available \<Rightarrow>
               Inr (c\<lparr>painted := painted c @ [DrawImage i (transform c) dx y dw ht]\<rparr>))
      | _ \<Rightarrow> Inr c)"

section \<open>Doubles\<close>

text \<open>
  The numbers of the source are IEEE doubles and every arithmetic operation rounds its
  exact result to the nearest double, ties to the even significand. \<open>fl\<close> is this
  rounding on the reals: \<open>binade v\<close> is the exponent of \<open>v\<close> (at least \<open>- 1022\<close>,
  where the subnormal numbers begin), \<open>ulp v\<close> the distance of the doubles around
  \<open>v\<close>, 52 binary places below the exponent. Overflow to an infinity (beyond
  \<open>2 ^ 1024\<close>) is not modelled.

  The rounding is written out where a strict comparison of the source decides what a
  statement below is about: in the time to live and in the test of \<open>shouldUpdate\<close>.
  Positions, velocities and rotations are computed over the reals.
\<close>

definition round_even :: "real \<Rightarrow> int" where
  "round_even y =
     (let f = \<lfloor>y\<rfloor>
      in if y - of_int f < 1 / 2 then f
         else if y - of_int f > 1 / 2 then f + 1
         else if even f then f else f + 1)"

definition binade :: "real \<Rightarrow> int" where
  "binade v = max \<lfloor>log 2 \<bar>v\<bar>\<rfloor> (- 1022)"

definition ulp :: "real \<Rightarrow> real" where
  "ulp v = 2 powi (binade v - 52)"

definition fl :: "real \<Rightarrow> real" where
  "fl v = sgn v * (of_int (round_even (\<bar>v\<bar> / ulp v)) * ulp v)"

section \<open>The Horn class (horn.js)\<close>

record vec =
  vec_x :: real
  vec_y :: real

text \<open>
  The fields of a horn, named as in the source; \<open>context_ref\<close> and \<open>image_ref\<close>
  are the source's \<open>this.context\<close> and \<open>this.image\<close>, references to the shared
  host objects. The height is \<open>None\<close> when it is not a finite number.
\<close>

record horn =
  context_ref :: ref
  image_ref :: ref
  width :: real
  height :: "real option"
  createdAt :: real
  timeToLive :: real
  position :: vec
  velocity :: vec
  rotationSpeed :: real
  rotation :: real

text \<open>
  The options object: every property may be absent, and an absent property takes the
  default of the destructuring pattern. \<open>no_options\<close> is the object \<open>{}\<close>.
\<close>

record options =
  opt_width :: "real option"
  opt_height :: "real option"
  opt_minTTL :: "real option"
  opt_maxTTL :: "real option"
  opt_maxRotationSpeed :: "real option"

definition no_options :: options where
  "no_options = \<lparr>opt_width = None, opt_height = None, opt_minTTL = None,
     opt_maxTTL = None, opt_maxRotationSpeed = None\<rparr>"

text \<open>
  The third argument of the constructor: left out (or \<open>undefined\<close>), \<open>null\<close>, or
  an object. The default \<open>options = {}\<close> stands in for \<open>undefined\<close> only, and the
  destructuring pattern throws a \<open>TypeError\<close> on \<open>null\<close> (the text of the message
  is the engine's).
\<close>

datatype options_arg = Options_undefined | Options_null | Options_object options

fun destructure :: "options_arg \<Rightarrow> error + options" where
  "destructure Options_undefined = Inr no_options"
| "destructure Options_null =
     Inl (TypeError ''Cannot destructure property width of options as it is null.'')"
| "destructure (Options_object v) = Inr v"

text \<open>
  The constructor. \<open>now\<close> is the value that \<open>performance.now()\<close> returns at
  construction, and \<open>rnd k\<close> the value of the \<open>k\<close>-th call of \<open>Math.random()\<close>
  that the constructor makes: angle offset, speed, side, time to live, vertical
  position and rotation speed, in the order of the source. The boolean \<open>isLeft\<close> is
  used as a number (\<open>true\<close> is 1, \<open>false\<close> is 0), which \<open>of_bool\<close> writes out.
  The default height multiplies the width by \<open>image.height / image.width\<close>; for an
  image of width 0 the quotient is \<open>NaN\<close> or an infinity, and so is the height. The
  time to live rounds after the subtraction, after the multiplication and after the
  addition.
\<close>

definition Horn_constructor ::
  "host \<Rightarrow> js_value \<Rightarrow> js_value \<Rightarrow> options_arg \<Rightarrow> real \<Rightarrow> (nat \<Rightarrow> real) \<Rightarrow> error + horn" where
  "Horn_constructor h ctx img opts now rnd =
     (case ctx of
        JS_context c \<Rightarrow>
          (case img of
             JS_image i \<Rightarrow>
               (case destructure opts of
                  Inl e \<Rightarrow> Inl e
                | Inr ob \<Rightarrow>
               (let canvasWidth = real (canvas_width (canvases h (canvas (contexts h c))));
                    canvasHeight = real (canvas_height (canvases h (canvas (contexts h c))));
                    angleOffset = (rnd 0 - 0.5) * (pi / 2);
                    speed = rnd 1 * canvasWidth;
                    isLeft = (rnd 2 < 0.5);
                    angle = pi * (of_bool isLeft + 0.5) + angleOffset;
                    w = (case opt_width ob of None \<Rightarrow> 48 | Some v \<Rightarrow> v);
                    ht = (case opt_height ob of
                            None \<Rightarrow>
                              (if image_width (images h i) = 0 then None
                               else Some (w * (real (image_height (images h i)) /
                                               real (image_width (images h i)))))
                          | Some v \<Rightarrow> Some v);
                    minTTL = (case opt_minTTL ob of None \<Rightarrow> 3000 | Some v \<Rightarrow> v);
                    maxTTL = (case opt_maxTTL ob of None \<Rightarrow> 5000 | Some v \<Rightarrow> v);
                    maxRotationSpeed = (case opt_maxRotationSpeed ob of None \<Rightarrow> 4 | Some v \<Rightarrow> v)
                in Inr \<lparr>context_ref = c,
                        image_ref = i,
                        width = w,
                        height = ht,
                        createdAt = now,
                        timeToLive = fl (minTTL + fl (rnd 3 * fl (maxTTL - minTTL))),
                        position = \<lparr>vec_x = of_bool isLeft * canvasWidth,
                                     vec_y = canvasHeight / 2 + (rnd 4 - 0.5) * (canvasHeight / 2)\<rparr>,
                        velocity = \<lparr>vec_x = sin angle * speed, vec_y = cos angle * speed\<rparr>,
                        rotationSpeed = (rnd 5 * 4 - 2) * pi * maxRotationSpeed,
                        rotation = 0\<rparr>))
           | _ \<Rightarrow> Inl (TypeError (''Expected image to be a HTMLImageElement. Found: '' @ typeof img)))
      | _ \<Rightarrow> Inl (TypeError
                 (''Expected context to be a CanvasRenderingContext2D. Found: '' @ typeof ctx)))"

text \<open>
  \<open>shouldUpdate\<close> reads the clock; \<open>now\<close> is the value it reads. The subtraction
  rounds.
\<close>

definition shouldUpdate :: "horn \<Rightarrow> real \<Rightarrow> bool" where
  "shouldUpdate hn now = (fl (now - createdAt hn) < timeToLive hn)"

definition update :: "real \<Rightarrow> horn \<Rightarrow> horn" where
  "update deltaTime hn =
     (let dtInSeconds = deltaTime / 1000
      in hn\<lparr>position := \<lparr>vec_x = vec_x (position hn) + vec_x (velocity hn) * dtInSeconds,
                           vec_y = vec_y (position hn) + vec_y (velocity hn) * dtInSeconds\<rparr>,
             rotation := rotation hn + rotationSpeed hn * dtInSeconds\<rparr>)"

text \<open>
  \<open>Horn.draw\<close> works on the context the horn refers to. It has no exception handler:
  when \<open>drawImage\<close> throws, the error leaves \<open>draw\<close> at once and the context stays
  as the calls before left it. The result is the error, if any, and the store.
\<close>

definition Horn_draw :: "horn \<Rightarrow> host \<Rightarrow> error option \<times> host" where
  "Horn_draw hn h =
     (let c0 = contexts h (context_ref hn);
          c1 = save c0;
          c2 = translate (vec_x (position hn)) (vec_y (position hn)) c1;
          c3 = rotate (rotation hn) c2
      in case drawImage (image_ref hn) (images h (image_ref hn))
                (- width hn / 2) (map_option (\<lambda>v. - v / 2) (height hn))
                (width hn) (height hn) c3 of
           Inl e \<Rightarrow> (Some e, h\<lparr>contexts := (contexts h)(context_ref hn := c3)\<rparr>)
         | Inr c4 \<Rightarrow> (None, h\<lparr>contexts := (contexts h)(context_ref hn := restore c4)\<rparr>))"

section \<open>The frame driver (the page script)\<close>

text \<open>
  The closure state of the \<open>window.onload\<close> handler after its setup: the store of
  host objects, the canvas and its context (\<open>getContext\<close> may have returned
  \<open>null\<close>), the fetched images and decoded sounds, the live horns and the time of
  the last frame. \<open>played\<close> logs the buffers handed to \<open>playAudioBuffer\<close> and
  \<open>frameRequests\<close> counts the calls of \<open>requestAnimationFrame(draw)\<close>.
\<close>

record driver =
  page :: host
  the_canvas :: ref
  canvasContext :: js_value
  hornImage :: js_value
  textHornImage :: js_value
  clownImage :: js_value
  twitchHornImage :: js_value
  bikeHornBuffer :: ref
  airHornBuffer :: ref
  airHorn2Buffer :: ref
  horns :: "horn list"
  lastTime :: real
  played :: "ref list"
  frameRequests :: nat

text \<open>
  The assignments \<open>canvas.width = ...\<close> and \<open>canvas.height = ...\<close>: the page
  resets every context of that canvas.
\<close>

definition assign_width :: "ref \<Rightarrow> nat \<Rightarrow> host \<Rightarrow> host" where
  "assign_width r w h =
     h\<lparr>canvases := (canvases h)(r := (canvases h r)\<lparr>canvas_width := w\<rparr>),
       contexts := (\<lambda>c. if canvas (contexts h c) = r then reset (contexts h c)
                         else contexts h c)\<rparr>"

definition assign_height :: "ref \<Rightarrow> nat \<Rightarrow> host \<Rightarrow> host" where
  "assign_height r w h =
     h\<lparr>canvases := (canvases h)(r := (canvases h r)\<lparr>canvas_height := w\<rparr>),
       contexts := (\<lambda>c. if canvas (contexts h c) = r then reset (contexts h c)
                         else contexts h c)\<rparr>"

definition resizeCanvasToDisplaySize :: "ref \<Rightarrow> host \<Rightarrow> host" where
  "resizeCanvasToDisplaySize r h =
     (let h1 = (if canvas_width (canvases h r) \<noteq> clientWidth (canvases h r)
                then assign_width r (clientWidth (canvases h r)) h else h)
      in if canvas_height (canvases h1 r) \<noteq> clientHeight (canvases h1 r)
         then assign_height r (clientHeight (canvases h1 r)) h1 else h1)"

text \<open>
  \<open>horns.filter((horn) => horn.shouldUpdate())\<close>: every call of
  \<open>shouldUpdate\<close> reads the clock anew, so the \<open>k\<close>-th horn is tested against
  the \<open>k\<close>-th reading \<open>clock k\<close>.
\<close>

fun filter_shouldUpdate :: "(nat \<Rightarrow> real) \<Rightarrow> horn list \<Rightarrow> horn list" where
  "filter_shouldUpdate clock [] = []"
| "filter_shouldUpdate clock (hn # hns) =
     (if shouldUpdate hn (clock 0)
      then hn # filter_shouldUpdate (\<lambda>k. clock (Suc k)) hns
      else filter_shouldUpdate (\<lambda>k. clock (Suc k)) hns)"

text \<open>
  The \<open>forEach\<close> loop of \<open>draw\<close>: a horn is updated and then drawn before the
  next horn is touched. An error thrown by a draw ends the loop; the horns reached so
  far stay updated, the others stay as they were.
\<close>

fun forEach_update_draw :: "real \<Rightarrow> horn list \<Rightarrow> host \<Rightarrow> error option \<times> horn list \<times> host" where
  "forEach_update_draw dt [] h = (None, [], h)"
| "forEach_update_draw dt (hn # hns) h =
     (let hn' = update dt hn
      in case Horn_draw hn' h of
           (Some e, h') \<Rightarrow> (Some e, hn' # hns, h')
         | (None, h') \<Rightarrow>
             (case forEach_update_draw dt hns h' of
                (r, hns', h'') \<Rightarrow> (r, hn' # hns', h'')))"

text \<open>
  One frame. \<open>time\<close> is the timestamp the scheduler passes, \<open>clock\<close> the readings
  of \<open>performance.now()\<close> during the filter. Calling \<open>clearRect\<close> on a value that
  is not a context is a \<open>TypeError\<close> (the text of the message is the engine's). An
  error leaves \<open>draw\<close> before \<open>lastTime\<close> is set and before the next frame is
  requested.
\<close>

definition draw :: "real \<Rightarrow> (nat \<Rightarrow> real) \<Rightarrow> driver \<Rightarrow> error option \<times> driver" where
  "draw time clock s =
     (let h1 = resizeCanvasToDisplaySize (the_canvas s) (page s);
          cv = canvases h1 (the_canvas s)
      in case canvasContext s of
           JS_context c \<Rightarrow>
             (let h2 = h1\<lparr>contexts := (contexts h1)
                          (c := clearRect 0 0 (real (canvas_width cv)) (real (canvas_height cv))
                                  (contexts h1 c))\<rparr>;
                  alive = filter_shouldUpdate clock (horns s);
                  dt = time - lastTime s
              in case forEach_update_draw dt alive h2 of
                   (Some e, hns, h3) \<Rightarrow> (Some e, s\<lparr>page := h3, horns := hns\<rparr>)
                 | (None, hns, h3) \<Rightarrow>
                     (None, s\<lparr>page := h3, horns := hns, lastTime := time,
                               frameRequests := Suc (frameRequests s)\<rparr>))
         | JS_undefined \<Rightarrow>
             (Some (TypeError ''Cannot read properties of undefined (reading clearRect)''),
              s\<lparr>page := h1\<rparr>)
         | JS_null \<Rightarrow>
             (Some (TypeError ''Cannot read properties of null (reading clearRect)''),
              s\<lparr>page := h1\<rparr>)
         | _ \<Rightarrow> (Some (TypeError ''canvasContext.clearRect is not a function''),
                 s\<lparr>page := h1\<rparr>))"

text \<open>
  The trigger: \<open>/russmoHORN|russmoHONK/.test(message)\<close> holds when one of the two
  words occurs in the message.
\<close>

fun startsWith :: "string \<Rightarrow> string \<Rightarrow> bool" where
  "startsWith [] cs = True"
| "startsWith (p # ps) [] = False"
| "startsWith (p # ps) (c # cs) = (p = c \<and> startsWith ps cs)"

fun occursIn :: "string \<Rightarrow> string \<Rightarrow> bool" where
  "occursIn p [] = (p = [])"
| "occursIn p (c # cs) = (startsWith p (c # cs) \<or> occursIn p cs)"

record badge_set =
  broadcaster :: "string option"

record userstate =
  badges :: "badge_set option"
  subscriber :: bool

definition truthy :: "string option \<Rightarrow> bool" where
  "truthy v = (case v of None \<Rightarrow> False | Some str \<Rightarrow> str \<noteq> [])"

text \<open>
  The choice of the image and of the sound in \<open>handleMessage\<close> (the assignments and
  the \<open>if\<close> on the badges): the text horn and the bike horn by default, the clown and
  one of the two air horns for the broadcaster, one of the two horn icons for a
  subscriber. \<open>rnd\<close> lists the values of \<open>Math.random()\<close> from this call on; the
  branches for the broadcaster and for subscribers take the first one. The result is the
  image, the sound and the random numbers left for the constructor.
\<close>

definition handleMessage_role ::
  "userstate \<Rightarrow> (nat \<Rightarrow> real) \<Rightarrow> driver \<Rightarrow> js_value \<times> ref \<times> (nat \<Rightarrow> real)" where
  "handleMessage_role us rnd s =
     (if (case badges us of None \<Rightarrow> False | Some b \<Rightarrow> truthy (broadcaster b)) then
        (clownImage s,
         if rnd 0 > 0.5 then airHornBuffer s else airHorn2Buffer s,
         \<lambda>k. rnd (Suc k))
      else if subscriber us then
        (if rnd 0 > 0.5 then hornImage s else twitchHornImage s,
         bikeHornBuffer s,
         \<lambda>k. rnd (Suc k))
      else (textHornImage s, bikeHornBuffer s, rnd))"

text \<open>
  \<open>handleMessage\<close> has no exception handler either: an error thrown by
  \<open>new Horn\<close> leaves it before \<open>horns.push\<close> and before the sound is played, and
  reaches the caller, the chat client. The result is the error, if any, and the state of
  the driver.
\<close>

definition handleMessage ::
  "string \<Rightarrow> userstate \<Rightarrow> string \<Rightarrow> bool \<Rightarrow> real \<Rightarrow> (nat \<Rightarrow> real) \<Rightarrow> driver \<Rightarrow> error option \<times> driver" where
  "handleMessage channel us message self now rnd s =
     (if occursIn ''russmoHORN'' message \<or> occursIn ''russmoHONK'' message then
        (case handleMessage_role us rnd s of
           (img, audioBuffer, rnd') \<Rightarrow>
             (case Horn_constructor (page s) (canvasContext s) img Options_undefined now rnd' of
                Inl e \<Rightarrow> (Some e, s)
              | Inr hn \<Rightarrow>
                  (None, s\<lparr>horns := horns s @ [hn], played := played s @ [audioBuffer]\<rparr>)))
      else (None, s))"

section \<open>Tests of the host values and sample inputs\<close>

text \<open>The two \<open>instanceof\<close> tests of the constructor.\<close>

fun is_CanvasRenderingContext2D :: "js_value \<Rightarrow> bool" where
  "is_CanvasRenderingContext2D (JS_context c) = True"
| "is_CanvasRenderingContext2D v = False"

fun is_HTMLImageElement :: "js_value \<Rightarrow> bool" where
  "is_HTMLImageElement (JS_image i) = True"
| "is_HTMLImageElement v = False"

text \<open>
  A page with a canvas of 800 by 600 and one context on it (reference 0), a loaded
  square image (reference 0) and an image whose request failed (reference 1).
\<close>

definition sample_canvas :: canvas_element where
  "sample_canvas = \<lparr>canvas_width = 800, canvas_height = 600, clientWidth = 800, clientHeight = 600\<rparr>"

definition sample_context :: context2d where
  "sample_context = \<lparr>canvas = 0, transform = [], saved = [], painted = []\<rparr>"

definition loaded_image :: image_element where
  "loaded_image = \<lparr>image_width = 64, image_height = 64, image_state = Available\<rparr>"

definition broken_image :: image_element where
  "broken_image = \<lparr>image_width = 0, image_height = 0, image_state = Broken\<rparr>"

definition sample_page :: host where
  "sample_page = \<lparr>canvases = (\<lambda>r. sample_canvas), contexts = (\<lambda>r. sample_context),
     images = (\<lambda>r. if r = 1 then broken_image else loaded_image)\<rparr>"

text \<open>
  Sources of random numbers: always 0, always one half, and always \<open>1 - 2 ^ - 52\<close>,
  a double below 1.
\<close>

definition zeros :: "nat \<Rightarrow> real" where
  "zeros k = 0"

definition halves :: "nat \<Rightarrow> real" where
  "halves k = 1 / 2"


text \<open>The configuration of the end-to-end scenario: a time to live of one second.\<close>

definition one_second :: options_arg where
  "one_second = Options_object (no_options\<lparr>opt_minTTL := Some 1000, opt_maxTTL := Some 1000\<rparr>)"

text \<open>
  Two horns created at time 0, the first with one second to live and the second with
  four, and their likes that refer to the broken image.
\<close>

definition short_horn :: horn where
  "short_horn = \<lparr>context_ref = 0, image_ref = 0, width = 48, height = Some 48, createdAt = 0,
     timeToLive = 1000, position = \<lparr>vec_x = 0, vec_y = 300\<rparr>,
     velocity = \<lparr>vec_x = 100, vec_y = 20\<rparr>, rotationSpeed = 2, rotation = 0\<rparr>"

definition long_horn :: horn where
  "long_horn = short_horn\<lparr>timeToLive := 4000, position := \<lparr>vec_x = 800, vec_y = 200\<rparr>,
     velocity := \<lparr>vec_x = - 50, vec_y = 10\<rparr>\<rparr>"



text \<open>
  A horn created when the clock read 0.1, that is the double nearest to it, with three
  seconds to live.
\<close>

definition late_horn :: horn where
  "late_horn = short_horn\<lparr>createdAt := 3602879701896397 / 2 ^ 55, timeToLive := 3000\<rparr>"

text \<open>
  The driver one second after it started with the two horns, the same driver with a
  horn on the broken image before the long horn, and the same page where
  \<open>getContext\<close> had returned \<open>null\<close>.
\<close>

definition sample_driver :: driver where
  "sample_driver = \<lparr>page = sample_page, the_canvas = 0, canvasContext = JS_context 0,
     hornImage = JS_image 0, textHornImage = JS_image 0, clownImage = JS_image 0,
     twitchHornImage = JS_image 0, bikeHornBuffer = 0, airHornBuffer = 1, airHorn2Buffer = 2,
     horns = [short_horn, long_horn], lastTime = 1000, played = [], frameRequests = 1\<rparr>"


definition null_driver :: driver where
  "null_driver = sample_driver\<lparr>canvasContext := JS_null, horns := []\<rparr>"

definition viewer :: userstate where
  "viewer = \<lparr>badges = None, subscriber = False\<rparr>"

section \<open>Rounding\<close>

lemma round_even_of_int: "round_even (of_int n) = n"
  by (simp add: round_even_def)

lemma round_even_mono:
  assumes "a \<le> b"
  shows "round_even a \<le> round_even b"
proof (cases "\<lfloor>a\<rfloor> = \<lfloor>b\<rfloor>")
  case True
  with assms show ?thesis
    unfolding round_even_def Let_def by auto
next
  case False
  with assms have "\<lfloor>a\<rfloor> < \<lfloor>b\<rfloor>" using floor_mono [of a b] by linarith
  then have "\<lfloor>a\<rfloor> + 1 \<le> \<lfloor>b\<rfloor>" by simp
  moreover have "round_even a \<le> \<lfloor>a\<rfloor> + 1" unfolding round_even_def Let_def by auto
  moreover have "\<lfloor>b\<rfloor> \<le> round_even b" unfolding round_even_def Let_def by auto
  ultimately show ?thesis by linarith
qed

lemma round_even_nonneg: "0 \<le> y \<Longrightarrow> 0 \<le> round_even y"
  using round_even_mono [of 0 y] round_even_of_int [of 0] by simp


lemma floor_log2_bounds:
  assumes "0 < v"
  shows "2 powi \<lfloor>log 2 v\<rfloor> \<le> v" and "v < 2 powi (\<lfloor>log 2 v\<rfloor> + 1)"
proof -
  have "2 powr (of_int \<lfloor>log 2 v\<rfloor>) \<le> v \<and> v < 2 powr (of_int \<lfloor>log 2 v\<rfloor> + 1)"
    using floor_log_eq_powr_iff [of v 2 "\<lfloor>log 2 v\<rfloor>"] assms by simp
  moreover have "(2::real) powr (of_int \<lfloor>log 2 v\<rfloor>) = 2 powi \<lfloor>log 2 v\<rfloor>"
    by (rule powr_real_of_int') simp_all
  moreover have "(2::real) powr (of_int \<lfloor>log 2 v\<rfloor> + 1) = 2 powi (\<lfloor>log 2 v\<rfloor> + 1)"
    using powr_real_of_int' [of 2 "\<lfloor>log 2 v\<rfloor> + 1"] by simp
  ultimately show "2 powi \<lfloor>log 2 v\<rfloor> \<le> v" and "v < 2 powi (\<lfloor>log 2 v\<rfloor> + 1)"
    by simp_all
qed

lemma binade_upper:
  assumes "0 < v"
  shows "v < 2 powi (binade v + 1)"
proof -
  have "v < 2 powi (\<lfloor>log 2 v\<rfloor> + 1)" using assms by (rule floor_log2_bounds)
  also have "(2::real) powi (\<lfloor>log 2 v\<rfloor> + 1) \<le> 2 powi (binade v + 1)"
    using assms by (intro power_int_increasing) (simp_all add: binade_def)
  finally show ?thesis .
qed

lemma binade_lower:
  assumes "0 < v" and "- 1022 < binade v"
  shows "2 powi (binade v) \<le> v"
proof -
  have "binade v = \<lfloor>log 2 v\<rfloor>" using assms by (simp add: binade_def max_def split: if_splits)
  then show ?thesis using floor_log2_bounds(1) [OF assms(1)] by simp
qed

lemma binade_mono:
  assumes "0 < a" and "a \<le> b"
  shows "binade a \<le> binade b"
proof -
  have "log 2 a \<le> log 2 b" using assms by simp
  then have "\<lfloor>log 2 a\<rfloor> \<le> \<lfloor>log 2 b\<rfloor>" by (rule floor_mono)
  then show ?thesis using assms by (simp add: binade_def)
qed

lemma ulp_pos: "0 < ulp v"
  by (simp add: ulp_def)

lemma ulp_times: "2 ^ 52 * ulp v = 2 powi (binade v)" "2 ^ 53 * ulp v = 2 powi (binade v + 1)"
proof -
  have "(2::real) powi (52 + (binade v - 52)) = 2 powi 52 * 2 powi (binade v - 52)"
    by (rule power_int_add) simp
  then show "2 ^ 52 * ulp v = 2 powi (binade v)" by (simp add: ulp_def)
  have "(2::real) powi (53 + (binade v - 52)) = 2 powi 53 * 2 powi (binade v - 52)"
    by (rule power_int_add) simp
  moreover have "53 + (binade v - 52) = binade v + 1" by simp
  ultimately show "2 ^ 53 * ulp v = 2 powi (binade v + 1)" by (simp add: ulp_def)
qed

lemma fl_pos_eq: "0 < v \<Longrightarrow> fl v = of_int (round_even (v / ulp v)) * ulp v"
  by (simp add: fl_def)

lemma fl_upper:
  assumes "0 < v"
  shows "fl v \<le> 2 powi (binade v + 1)"
proof -
  have "v < 2 ^ 53 * ulp v" using binade_upper [OF assms] by (simp only: ulp_times)
  then have "v / ulp v \<le> of_int (2 ^ 53)" using ulp_pos [of v] by (simp add: field_simps)
  then have "round_even (v / ulp v) \<le> round_even (of_int (2 ^ 53))" by (rule round_even_mono)
  then have "round_even (v / ulp v) \<le> 2 ^ 53" by (simp only: round_even_of_int)
  then have "(of_int (round_even (v / ulp v)) :: real) \<le> of_int (2 ^ 53)" by (simp only: of_int_le_iff)
  then have "of_int (round_even (v / ulp v)) * ulp v \<le> 2 ^ 53 * ulp v"
    using ulp_pos [of v] by (intro mult_right_mono) simp_all
  then show ?thesis using assms by (simp only: fl_pos_eq ulp_times)
qed

lemma fl_lower:
  assumes "0 < v" and "- 1022 < binade v"
  shows "2 powi (binade v) \<le> fl v"
proof -
  have "2 ^ 52 * ulp v \<le> v" using binade_lower [OF assms] by (simp only: ulp_times)
  then have "of_int (2 ^ 52) \<le> v / ulp v" using ulp_pos [of v] by (simp add: field_simps)
  then have "round_even (of_int (2 ^ 52)) \<le> round_even (v / ulp v)" by (rule round_even_mono)
  then have "2 ^ 52 \<le> round_even (v / ulp v)" by (simp only: round_even_of_int)
  then have "(of_int (2 ^ 52) :: real) \<le> of_int (round_even (v / ulp v))" by (simp only: of_int_le_iff)
  then have "2 ^ 52 * ulp v \<le> of_int (round_even (v / ulp v)) * ulp v"
    using ulp_pos [of v] by (intro mult_right_mono) simp_all
  then show ?thesis using assms by (simp only: fl_pos_eq ulp_times)
qed

lemma fl_nonneg: "0 \<le> v \<Longrightarrow> 0 \<le> fl v"
  using ulp_pos [of v] by (simp add: fl_def sgn_if round_even_nonneg)

lemma fl_minus: "fl (- v) = - fl v"
  by (simp add: fl_def ulp_def binade_def sgn_if)

lemma fl_mono_pos:
  assumes "0 < a" and "a \<le> b"
  shows "fl a \<le> fl b"
proof (cases "binade a = binade b")
  case True
  then have u: "ulp a = ulp b" by (simp add: ulp_def)
  have "a / ulp b \<le> b / ulp b" using assms ulp_pos [of b] by (simp add: divide_right_mono)
  then have "round_even (a / ulp b) \<le> round_even (b / ulp b)" by (rule round_even_mono)
  then have "(of_int (round_even (a / ulp b)) :: real) \<le> of_int (round_even (b / ulp b))"
    by (simp only: of_int_le_iff)
  then have "of_int (round_even (a / ulp b)) * ulp b \<le> of_int (round_even (b / ulp b)) * ulp b"
    using ulp_pos [of b] by (intro mult_right_mono) simp_all
  then show ?thesis using assms u by (simp add: fl_pos_eq)
next
  case False
  have b: "0 < b" using assms by simp
  from False binade_mono [OF assms] have lt: "binade a + 1 \<le> binade b" by simp
  then have big: "- 1022 < binade b" by (simp add: binade_def [of a])
  have "fl a \<le> 2 powi (binade a + 1)" using assms(1) by (rule fl_upper)
  also have "(2::real) powi (binade a + 1) \<le> 2 powi (binade b)"
    using lt by (intro power_int_increasing) simp_all
  also have "\<dots> \<le> fl b" using b big by (rule fl_lower)
  finally show ?thesis .
qed

lemma fl_mono:
  assumes "a \<le> b"
  shows "fl a \<le> fl b"
proof -
  consider "0 < a" | "a \<le> 0" "0 \<le> b" | "b < 0" by linarith
  then show ?thesis
  proof cases
    case 1
    then show ?thesis using assms by (rule fl_mono_pos)
  next
    case 2
    have "fl a \<le> 0" using fl_nonneg [of "- a"] 2(1) by (simp add: fl_minus)
    also have "0 \<le> fl b" using 2(2) by (rule fl_nonneg)
    finally show ?thesis .
  next
    case 3
    have "fl (- b) \<le> fl (- a)" using 3 assms by (intro fl_mono_pos) simp_all
    then show ?thesis by (simp add: fl_minus)
  qed
qed

lemma fl_zero: "fl 0 = 0"
  by (simp add: fl_def)



lemma round_even_up: "y < of_int f + 1 \<Longrightarrow> 1 / 2 < y - of_int f \<Longrightarrow> round_even y = f + 1"
proof -
  assume a: "y < of_int f + 1" "1 / 2 < y - of_int f"
  then have "\<lfloor>y\<rfloor> = f" by (intro floor_unique) simp_all
  with a show ?thesis by (simp add: round_even_def)
qed


lemma binade_eqI:
  assumes "0 < v" and "2 powi k \<le> v" and "v < 2 powi (k + 1)" and "- 1022 \<le> k"
  shows "binade v = k"
proof -
  have "(2::real) powr (of_int k) = 2 powi k"
    by (rule powr_real_of_int') simp_all
  moreover have "(2::real) powr (of_int k + 1) = 2 powi (k + 1)"
    using powr_real_of_int' [of 2 "k + 1"] by simp
  ultimately have "\<lfloor>log 2 v\<rfloor> = k"
    using assms floor_log_eq_powr_iff [of v 2 k] by simp
  with assms show ?thesis by (simp add: binade_def)
qed

lemma fl_eval:
  assumes "0 < v" and "2 powi k \<le> v" and "v < 2 powi (k + 1)" and "- 1022 \<le> k"
    and "round_even (v / 2 powi (k - 52)) = m"
  shows "fl v = of_int m * 2 powi (k - 52)"
proof -
  have "binade v = k" using assms(1-4) by (rule binade_eqI)
  with assms(1,5) show ?thesis by (simp add: fl_pos_eq ulp_def)
qed

lemma fl_exact:
  assumes "0 < v" and "v / ulp v = of_int m"
  shows "fl v = v"
proof -
  have "fl v = of_int (round_even (of_int m)) * ulp v"
    using assms by (simp add: fl_pos_eq)
  also have "\<dots> = v / ulp v * ulp v" by (simp only: round_even_of_int assms(2))
  also have "\<dots> = v" using ulp_pos [of v] by simp
  finally show ?thesis .
qed

lemma fl_of_nat:
  assumes "n < 2 ^ 53"
  shows "fl (real n) = real n"
proof (cases "n = 0")
  case True
  then show ?thesis by (simp add: fl_zero)
next
  case False
  then have pos: "0 < real n" by simp
  have "1 \<le> real n" using False by simp
  then have "0 \<le> log 2 (real n)" by simp
  then have lo: "0 \<le> \<lfloor>log 2 (real n)\<rfloor>" by simp
  have "real n < 2 powr 53" using assms
    by (metis of_nat_less_iff of_nat_numeral of_nat_power powr_numeral zero_le_numeral)
  moreover have "(real n < 2 powr 53) = (log 2 (real n) < 53)"
    by (rule less_powr_iff) (use pos in simp_all)
  ultimately have "log 2 (real n) < 53" by blast
  then have hi: "\<lfloor>log 2 (real n)\<rfloor> \<le> 52" by (simp add: floor_le_iff)
  define k where "k = \<lfloor>log 2 (real n)\<rfloor>"
  have b: "binade (real n) = k" using lo by (simp add: binade_def k_def)
  have "ulp (real n) = 2 powi (k - 52)" by (simp add: ulp_def b)
  also have "\<dots> = 1 / 2 powi (52 - k)" by (simp add: power_int_diff)
  also have "(2::real) powi (52 - k) = 2 ^ nat (52 - k)"
    using hi by (simp add: power_int_def k_def)
  finally have u: "ulp (real n) = 1 / 2 ^ nat (52 - k)" .
  have "real n / ulp (real n) = of_int (int n * 2 ^ nat (52 - k))"
    by (simp add: u)
  with pos show ?thesis by (rule fl_exact)
qed


lemma fl_1000: "fl 1000 = 1000"
  using fl_of_nat [of 1000] by simp





section \<open>The life of a horn\<close>

text \<open>
  Claim C2, as amended. For a horn whose time to live is a double, \<open>shouldUpdate\<close>
  holds exactly when the rounded difference of the clock reading and the time of
  creation is below the time to live. It fails at every reading from the creation plus
  the time to live on, and once it has failed it fails at every later reading: with a
  clock that never goes back, a horn that is no longer alive never comes back to life.
  Inside the window it holds wherever the subtraction is exact, and wherever the exact
  difference is at most some double below the time to live; only within the last
  rounding step before the end of the window can it fail early.
\<close>

theorem shouldUpdate_alive_window:
  assumes "fl (timeToLive hn) = timeToLive hn"
  shows "(shouldUpdate hn now \<longleftrightarrow> fl (now - createdAt hn) < timeToLive hn) \<and>
         (createdAt hn + timeToLive hn \<le> now \<longrightarrow> \<not> shouldUpdate hn now) \<and>
         (\<not> shouldUpdate hn now \<and> now \<le> later \<longrightarrow> \<not> shouldUpdate hn later) \<and>
         (fl (now - createdAt hn) = now - createdAt hn \<longrightarrow>
            (shouldUpdate hn now \<longleftrightarrow> now < createdAt hn + timeToLive hn)) \<and>
         (fl t = t \<and> t < timeToLive hn \<and> now - createdAt hn \<le> t \<longrightarrow> shouldUpdate hn now)"
proof -
  have a: "createdAt hn + timeToLive hn \<le> now \<longrightarrow> \<not> shouldUpdate hn now"
  proof
    assume "createdAt hn + timeToLive hn \<le> now"
    then have "timeToLive hn \<le> now - createdAt hn" by simp
    then have "fl (timeToLive hn) \<le> fl (now - createdAt hn)" by (rule fl_mono)
    with assms show "\<not> shouldUpdate hn now" by (simp add: shouldUpdate_def)
  qed
  have b: "\<not> shouldUpdate hn now \<and> now \<le> later \<longrightarrow> \<not> shouldUpdate hn later"
  proof
    assume h: "\<not> shouldUpdate hn now \<and> now \<le> later"
    then have "now - createdAt hn \<le> later - createdAt hn" by simp
    then have "fl (now - createdAt hn) \<le> fl (later - createdAt hn)" by (rule fl_mono)
    with h show "\<not> shouldUpdate hn later" by (simp add: shouldUpdate_def)
  qed
  have c: "fl (now - createdAt hn) = now - createdAt hn \<longrightarrow>
            (shouldUpdate hn now \<longleftrightarrow> now < createdAt hn + timeToLive hn)"
    by (auto simp: shouldUpdate_def)
  have d: "fl t = t \<and> t < timeToLive hn \<and> now - createdAt hn \<le> t \<longrightarrow> shouldUpdate hn now"
  proof
    assume h: "fl t = t \<and> t < timeToLive hn \<and> now - createdAt hn \<le> t"
    then have "fl (now - createdAt hn) \<le> fl t" by (intro fl_mono) simp
    with h show "shouldUpdate hn now" by (simp add: shouldUpdate_def)
  qed
  from a b c d show ?thesis by (simp add: shouldUpdate_def)
qed

theorem shouldUpdate_alive_window_witness:
  "shouldUpdate short_horn 0 \<and> shouldUpdate short_horn 500 \<and>
   \<not> shouldUpdate short_horn 1000 \<and> \<not> shouldUpdate short_horn 1100"
proof -
  have t: "fl (timeToLive short_horn) = timeToLive short_horn"
    using fl_1000 by (simp add: short_horn_def)
  note W = shouldUpdate_alive_window [OF t]
  have e0: "fl (0 - createdAt short_horn) = 0 - createdAt short_horn"
    using fl_zero by (simp add: short_horn_def)
  have e500: "fl (500 - createdAt short_horn) = 500 - createdAt short_horn"
    using fl_of_nat [of 500] by (simp add: short_horn_def)
  have w0: "0 < createdAt short_horn + timeToLive short_horn"
    and w500: "500 < createdAt short_horn + timeToLive short_horn"
    and w1000: "createdAt short_horn + timeToLive short_horn \<le> 1000"
    by (simp_all add: short_horn_def)
  have le: "(1000::real) \<le> 1100" by simp
  from W [of 0 0 0] e0 w0 have a: "shouldUpdate short_horn 0" by blast
  from W [of 500 500 0] e500 w500 have b: "shouldUpdate short_horn 500" by blast
  from W [of 1000 1100 0] w1000 have c: "\<not> shouldUpdate short_horn 1000" by blast
  from W [of 1000 1100 0] c le have d: "\<not> shouldUpdate short_horn 1100" by blast
  from a b c d show ?thesis by blast
qed

text \<open>
  The claim as it stands fails at the upper end of the window. The horn was created
  when the clock read 0.1 and has 3000 to live; at the reading 3000.1 (the doubles
  nearest to both) the exact difference is below 3000 and the reading lies inside the
  window, but the subtraction rounds to 3000 and \<open>shouldUpdate\<close> fails.
\<close>

theorem shouldUpdate_rounding_counterexample:
  "createdAt late_horn \<le> 6597289668981555 / 2 ^ 41 \<and>
   6597289668981555 / 2 ^ 41 < createdAt late_horn + timeToLive late_horn \<and>
   \<not> shouldUpdate late_horn (6597289668981555 / 2 ^ 41)"
proof -
  have r: "round_even ((6597289668981555 / 2 ^ 41 - 3602879701896397 / 2 ^ 55) / 2 powi (11 - 52))
      = 6597069766655999 + 1"
    by (rule round_even_up) (simp_all add: power_int_minus)
  have "fl (6597289668981555 / 2 ^ 41 - 3602879701896397 / 2 ^ 55) =
      of_int (6597069766655999 + 1) * 2 powi (11 - 52)"
    by (rule fl_eval [OF _ _ _ _ r]) simp_all
  then have "fl (6597289668981555 / 2 ^ 41 - 3602879701896397 / 2 ^ 55) = 3000"
    by (simp add: power_int_minus)
  then show ?thesis by (simp add: shouldUpdate_def late_horn_def short_horn_def)
qed

text \<open>
  Claim C5. \<open>update\<close> adds the velocity times \<open>dt / 1000\<close> to the position and the
  rotation speed times \<open>dt / 1000\<close> to the rotation. Over the reals two updates, by
  \<open>a\<close> and then by \<open>b\<close>, give the very horn that one update by \<open>a + b\<close> gives, and
  an update by 0 gives the horn back.
\<close>

theorem update_linear:
  "position (update dt hn) =
     \<lparr>vec_x = vec_x (position hn) + vec_x (velocity hn) * (dt / 1000),
      vec_y = vec_y (position hn) + vec_y (velocity hn) * (dt / 1000)\<rparr> \<and>
   rotation (update dt hn) = rotation hn + rotationSpeed hn * (dt / 1000) \<and>
   update b (update a hn) = update (a + b) hn \<and>
   update 0 hn = hn"
  by (simp add: update_def Let_def algebra_simps)

text \<open>
  Claim C10. For every horn and every \<open>dt\<close>, of either sign, \<open>update\<close> leaves the
  context, the image, the width, the height, the time of creation, the time to live, the
  velocity and the rotation speed as they were: only the position and the rotation
  change.
\<close>

theorem update_frame:
  "context_ref (update dt hn) = context_ref hn \<and>
   image_ref (update dt hn) = image_ref hn \<and>
   width (update dt hn) = width hn \<and>
   height (update dt hn) = height hn \<and>
   createdAt (update dt hn) = createdAt hn \<and>
   timeToLive (update dt hn) = timeToLive hn \<and>
   velocity (update dt hn) = velocity hn \<and>
   rotationSpeed (update dt hn) = rotationSpeed hn"
  by (simp add: update_def Let_def)

section \<open>The constructor\<close>

lemma Horn_constructor_Inr:
  assumes "Horn_constructor h ctx img opts now rnd = Inr hn"
  obtains c i ob where "ctx = JS_context c" and "img = JS_image i" and "destructure opts = Inr ob"
  using assms
  by (cases ctx; cases img; cases "destructure opts") (simp_all add: Horn_constructor_def)

lemma Horn_constructor_built:
  assumes "Horn_constructor h (JS_context c) (JS_image i) opts now rnd = Inr hn"
    and "destructure opts = Inr ob"
  shows "timeToLive hn =
           fl ((case opt_minTTL ob of None \<Rightarrow> 3000 | Some v \<Rightarrow> v) +
               fl (rnd 3 * fl ((case opt_maxTTL ob of None \<Rightarrow> 5000 | Some v \<Rightarrow> v) -
                               (case opt_minTTL ob of None \<Rightarrow> 3000 | Some v \<Rightarrow> v))))"
    and "position hn =
           \<lparr>vec_x = of_bool (rnd 2 < 0.5) *
                     real (canvas_width (canvases h (canvas (contexts h c)))),
            vec_y = real (canvas_height (canvases h (canvas (contexts h c)))) / 2 +
                    (rnd 4 - 0.5) *
                    (real (canvas_height (canvases h (canvas (contexts h c)))) / 2)\<rparr>"
    and "velocity hn =
           \<lparr>vec_x = sin (pi * (of_bool (rnd 2 < 0.5) + 0.5) + (rnd 0 - 0.5) * (pi / 2)) *
                    (rnd 1 * real (canvas_width (canvases h (canvas (contexts h c))))),
            vec_y = cos (pi * (of_bool (rnd 2 < 0.5) + 0.5) + (rnd 0 - 0.5) * (pi / 2)) *
                    (rnd 1 * real (canvas_width (canvases h (canvas (contexts h c)))))\<rparr>"
proof -
  have hn: "hn = projr (Horn_constructor h (JS_context c) (JS_image i) opts now rnd)"
    by (simp only: assms(1) sum.sel)
  show "timeToLive hn =
           fl ((case opt_minTTL ob of None \<Rightarrow> 3000 | Some v \<Rightarrow> v) +
               fl (rnd 3 * fl ((case opt_maxTTL ob of None \<Rightarrow> 5000 | Some v \<Rightarrow> v) -
                               (case opt_minTTL ob of None \<Rightarrow> 3000 | Some v \<Rightarrow> v))))"
    unfolding hn
    by (simp only: Horn_constructor_def Let_def js_value.case assms(2) sum.case sum.sel
        horn.select_convs)
  show "position hn =
           \<lparr>vec_x = of_bool (rnd 2 < 0.5) *
                     real (canvas_width (canvases h (canvas (contexts h c)))),
            vec_y = real (canvas_height (canvases h (canvas (contexts h c)))) / 2 +
                    (rnd 4 - 0.5) *
                    (real (canvas_height (canvases h (canvas (contexts h c)))) / 2)\<rparr>"
    unfolding hn
    by (simp only: Horn_constructor_def Let_def js_value.case assms(2) sum.case sum.sel
        horn.select_convs)
  show "velocity hn =
           \<lparr>vec_x = sin (pi * (of_bool (rnd 2 < 0.5) + 0.5) + (rnd 0 - 0.5) * (pi / 2)) *
                    (rnd 1 * real (canvas_width (canvases h (canvas (contexts h c))))),
            vec_y = cos (pi * (of_bool (rnd 2 < 0.5) + 0.5) + (rnd 0 - 0.5) * (pi / 2)) *
                    (rnd 1 * real (canvas_width (canvases h (canvas (contexts h c)))))\<rparr>"
    unfolding hn
    by (simp only: Horn_constructor_def Let_def js_value.case assms(2) sum.case sum.sel
        horn.select_convs)
qed

lemma scaled_unit_interval:
  fixes r d :: real
  assumes "0 \<le> r" "r < 1" "0 < d"
  shows "0 \<le> r * d \<and> r * d < d"
proof
  show "0 \<le> r * d" using assms by simp
  have "r * d < 1 * d" using assms by (intro mult_strict_right_mono) simp_all
  then show "r * d < d" by simp
qed




text \<open>
  Claim C7. For a canvas of width \<open>W\<close> and height \<open>H\<close>, the horizontal position at
  spawn is \<open>W\<close> when the side flag \<open>isLeft\<close> is set and 0 otherwise, and, the random
  number lying in \<open>[0, 1)\<close>, the vertical position lies between \<open>H / 4\<close> and
  \<open>3 H / 4\<close>.
\<close>

theorem spawn_position:
  assumes "Horn_constructor h (JS_context c) img opts now rnd = Inr hn"
    and "W = real (canvas_width (canvases h (canvas (contexts h c))))"
    and "H = real (canvas_height (canvases h (canvas (contexts h c))))"
    and "0 \<le> rnd 4" and "rnd 4 < 1"
  shows "vec_x (position hn) = (if rnd 2 < 0.5 then W else 0) \<and>
         H / 4 \<le> vec_y (position hn) \<and> vec_y (position hn) \<le> 3 * H / 4"
proof -
  obtain c' i ob where "JS_context c = JS_context c'" and img: "img = JS_image i"
    and ob: "destructure opts = Inr ob"
    using assms(1) by (rule Horn_constructor_Inr)
  have "position hn = \<lparr>vec_x = of_bool (rnd 2 < 0.5) * W,
                          vec_y = H / 2 + (rnd 4 - 0.5) * (H / 2)\<rparr>"
    unfolding assms(2,3) using assms(1) ob unfolding img by (rule Horn_constructor_built(2))
  then have px: "vec_x (position hn) = of_bool (rnd 2 < 0.5) * W"
    and py: "vec_y (position hn) = H / 2 + (rnd 4 - 0.5) * (H / 2)"
    by simp_all
  define t where "t = (rnd 4 - 0.5) * (H / 2)"
  have H0: "0 \<le> H / 2" using assms(3) by simp
  have "(- (1 / 2)) * (H / 2) \<le> (rnd 4 - 0.5) * (H / 2)"
    using assms(4) H0 by (intro mult_right_mono) simp_all
  then have lo: "- (H / 4) \<le> t" by (simp add: t_def)
  have "(rnd 4 - 0.5) * (H / 2) \<le> (1 / 2) * (H / 2)"
    using assms(5) H0 by (intro mult_right_mono) simp_all
  then have hi: "t \<le> H / 4" by (simp add: t_def)
  have "vec_y (position hn) = H / 2 + t" using py by (simp add: t_def)
  with lo hi have "H / 4 \<le> vec_y (position hn) \<and> vec_y (position hn) \<le> 3 * H / 4"
    by simp
  with px show ?thesis by simp
qed

theorem spawn_position_witness:
  "(case Horn_constructor sample_page (JS_context 0) (JS_image 0) Options_undefined 0 zeros of
      Inl e \<Rightarrow> False
    | Inr hn \<Rightarrow> vec_x (position hn) = 800 \<and> 150 \<le> vec_y (position hn) \<and> vec_y (position hn) \<le> 450)"
proof -
  obtain hn where
    hn: "Horn_constructor sample_page (JS_context 0) (JS_image 0) Options_undefined 0 zeros = Inr hn"
    by (simp add: Horn_constructor_def Let_def)
  have "vec_x (position hn) = 800 \<and> 150 \<le> vec_y (position hn) \<and> vec_y (position hn) \<le> 450"
    using spawn_position [OF hn, of 800 600]
    by (simp add: sample_page_def sample_canvas_def sample_context_def zeros_def)
  with hn show ?thesis by simp
qed

text \<open>
  Claim C8. The velocity at spawn is \<open>(sin angle * speed, cos angle * speed)\<close>, the
  sine on the horizontal component, where the angle is \<open>pi * (side + 0.5)\<close> plus an
  offset and \<open>side\<close> is the side flag as a number. The random numbers lying in
  \<open>[0, 1)\<close>, the offset lies between \<open>- pi / 4\<close> and \<open>pi / 4\<close>, and the speed is
  the random number times the width \<open>W\<close> of the canvas: it is never negative, never
  above \<open>W\<close> and below \<open>W\<close> whenever \<open>W\<close> is positive. With speed 0 the velocity
  is \<open>(0, 0)\<close>.
\<close>

theorem spawn_velocity:
  assumes "Horn_constructor h (JS_context c) img opts now rnd = Inr hn"
    and "W = real (canvas_width (canvases h (canvas (contexts h c))))"
    and "side = (of_bool (rnd 2 < 0.5) :: real)"
    and "offset = (rnd 0 - 0.5) * (pi / 2)"
    and "speed = rnd 1 * W"
    and "angle = pi * (side + 0.5) + offset"
    and "0 \<le> rnd 0" and "rnd 0 < 1" and "0 \<le> rnd 1" and "rnd 1 < 1"
  shows "velocity hn = \<lparr>vec_x = sin angle * speed, vec_y = cos angle * speed\<rparr> \<and>
         - (pi / 4) \<le> offset \<and> offset \<le> pi / 4 \<and>
         0 \<le> speed \<and> speed \<le> W \<and> (0 < W \<longrightarrow> speed < W) \<and>
         (speed = 0 \<longrightarrow> velocity hn = \<lparr>vec_x = 0, vec_y = 0\<rparr>)"
proof -
  obtain c' i ob where "JS_context c = JS_context c'" and img: "img = JS_image i"
    and ob: "destructure opts = Inr ob"
    using assms(1) by (rule Horn_constructor_Inr)
  have v: "velocity hn = \<lparr>vec_x = sin angle * speed, vec_y = cos angle * speed\<rparr>"
    unfolding assms(2-6) using assms(1) ob unfolding img by (rule Horn_constructor_built(3))
  have p: "0 \<le> pi / 2" by simp
  have "(- (1 / 2)) * (pi / 2) \<le> (rnd 0 - 0.5) * (pi / 2)"
    using assms(7) p by (intro mult_right_mono) simp_all
  then have lo: "- (pi / 4) \<le> offset" by (simp add: assms(4))
  have "(rnd 0 - 0.5) * (pi / 2) \<le> (1 / 2) * (pi / 2)"
    using assms(8) p by (intro mult_right_mono) simp_all
  then have hi: "offset \<le> pi / 4" by (simp add: assms(4))
  have W0: "0 \<le> W" using assms(2) by simp
  have s0: "0 \<le> speed" using assms(5,9) W0 by simp
  have "rnd 1 * W \<le> 1 * W" using assms(10) W0 by (intro mult_right_mono) simp_all
  then have s1: "speed \<le> W" using assms(5) by simp
  have s2: "0 < W \<longrightarrow> speed < W"
    using scaled_unit_interval [of "rnd 1" W] assms(5,9,10) by simp
  from v have s3: "speed = 0 \<longrightarrow> velocity hn = \<lparr>vec_x = 0, vec_y = 0\<rparr>" by simp
  from v lo hi s0 s1 s2 s3 show ?thesis by (intro conjI)
qed

theorem spawn_velocity_witness:
  "(case Horn_constructor sample_page (JS_context 0) (JS_image 0) Options_undefined 0 halves of
      Inl e \<Rightarrow> False
    | Inr hn \<Rightarrow> velocity hn = \<lparr>vec_x = 400, vec_y = 0\<rparr>) \<and>
   (case Horn_constructor sample_page (JS_context 0) (JS_image 0) Options_undefined 0 zeros of
      Inl e \<Rightarrow> False
    | Inr hn \<Rightarrow> velocity hn = \<lparr>vec_x = 0, vec_y = 0\<rparr>)"
proof -
  have W: "(800::real) = real (canvas_width (canvases sample_page (canvas (contexts sample_page 0))))"
    by (simp add: sample_page_def sample_canvas_def)
  obtain hn where
    hn: "Horn_constructor sample_page (JS_context 0) (JS_image 0) Options_undefined 0 halves = Inr hn"
    by (simp add: Horn_constructor_def Let_def)
  have side: "(0::real) = of_bool (halves 2 < 0.5)" by (simp add: halves_def)
  have off: "(0::real) = (halves 0 - 0.5) * (pi / 2)" by (simp add: halves_def)
  have sp: "(400::real) = halves 1 * 800" by (simp add: halves_def)
  have ang: "pi / 2 = pi * (0 + 0.5) + 0" by simp
  have r: "0 \<le> halves 0" "halves 0 < 1" "0 \<le> halves 1" "halves 1 < 1"
    by (simp_all add: halves_def)
  have "velocity hn = \<lparr>vec_x = sin (pi / 2) * 400, vec_y = cos (pi / 2) * 400\<rparr>"
    using spawn_velocity [OF hn W side off sp ang r] by (rule conjunct1)
  then have a: "velocity hn = \<lparr>vec_x = 400, vec_y = 0\<rparr>" by simp
  obtain hz where
    hz: "Horn_constructor sample_page (JS_context 0) (JS_image 0) Options_undefined 0 zeros = Inr hz"
    by (simp add: Horn_constructor_def Let_def)
  have side0: "(1::real) = of_bool (zeros 2 < 0.5)" by (simp add: zeros_def)
  have off0: "- (pi / 4) = (zeros 0 - 0.5) * (pi / 2)" by (simp add: zeros_def)
  have sp0: "(0::real) = zeros 1 * 800" by (simp add: zeros_def)
  have ang0: "pi * (1 + 0.5) + - (pi / 4) = pi * (1 + 0.5) + - (pi / 4)" by (rule refl)
  have r0: "0 \<le> zeros 0" "zeros 0 < 1" "0 \<le> zeros 1" "zeros 1 < 1"
    by (simp_all add: zeros_def)
  have "velocity hz = \<lparr>vec_x = sin (pi * (1 + 0.5) + - (pi / 4)) * 0,
                          vec_y = cos (pi * (1 + 0.5) + - (pi / 4)) * 0\<rparr>"
    using spawn_velocity [OF hz W side0 off0 sp0 ang0 r0] by (rule conjunct1)
  then have b: "velocity hz = \<lparr>vec_x = 0, vec_y = 0\<rparr>" by (simp only: mult_zero_right)
  from hn hz a b show ?thesis by (simp only: sum.case simp_thms)
qed

text \<open>
  Claim C9, as amended. The constructor returns an error exactly when the context is
  not a \<open>CanvasRenderingContext2D\<close>, or the image is not an \<open>HTMLImageElement\<close>,
  or the options are \<open>null\<close>; with two valid handles and options that are left out
  or an object it returns a horn. The error is always a \<open>TypeError\<close>, the result of
  the call itself: the context is tested first, then the image, and the messages of the
  two tests name what \<open>typeof\<close> finds.
\<close>

theorem constructor_rejects_iff:
  "(isl (Horn_constructor h ctx img opts now rnd) \<longleftrightarrow>
      \<not> is_CanvasRenderingContext2D ctx \<or> \<not> is_HTMLImageElement img \<or> opts = Options_null) \<and>
   (\<not> is_CanvasRenderingContext2D ctx \<longrightarrow>
      Horn_constructor h ctx img opts now rnd =
        Inl (TypeError (''Expected context to be a CanvasRenderingContext2D. Found: '' @ typeof ctx))) \<and>
   (is_CanvasRenderingContext2D ctx \<and> \<not> is_HTMLImageElement img \<longrightarrow>
      Horn_constructor h ctx img opts now rnd =
        Inl (TypeError (''Expected image to be a HTMLImageElement. Found: '' @ typeof img))) \<and>
   (is_CanvasRenderingContext2D ctx \<and> is_HTMLImageElement img \<and> opts = Options_null \<longrightarrow>
      Horn_constructor h ctx img opts now rnd =
        Inl (TypeError ''Cannot destructure property width of options as it is null.'')) \<and>
   (\<forall>e. Horn_constructor h ctx img opts now rnd = Inl e \<longrightarrow> (\<exists>msg. e = TypeError msg))"
  by (cases ctx; cases img; cases opts) (simp_all add: Horn_constructor_def Let_def)

theorem constructor_rejects_iff_witness:
  "isl (Horn_constructor sample_page JS_null (JS_image 0) Options_undefined 0 zeros) \<and>
   Horn_constructor sample_page (JS_context 0) JS_undefined Options_undefined 0 zeros =
     Inl (TypeError ''Expected image to be a HTMLImageElement. Found: undefined'') \<and>
   isl (Horn_constructor sample_page (JS_context 0) (JS_image 0) Options_null 0 zeros) \<and>
   \<not> isl (Horn_constructor sample_page (JS_context 0) (JS_image 0) Options_undefined 0 zeros) \<and>
   \<not> isl (Horn_constructor sample_page (JS_context 0) (JS_image 0) one_second 0 zeros)"
  using constructor_rejects_iff [of sample_page JS_null "JS_image 0" Options_undefined 0 zeros]
    constructor_rejects_iff [of sample_page "JS_context 0" JS_undefined Options_undefined 0 zeros]
    constructor_rejects_iff [of sample_page "JS_context 0" "JS_image 0" Options_null 0 zeros]
    constructor_rejects_iff [of sample_page "JS_context 0" "JS_image 0" Options_undefined 0 zeros]
    constructor_rejects_iff [of sample_page "JS_context 0" "JS_image 0" one_second 0 zeros]
  by (simp add: one_second_def)

text \<open>
  The claim as it stands fails for the options \<open>null\<close>: both handles are valid and
  the destructuring of the options throws.
\<close>

theorem constructor_null_options_counterexample:
  "is_CanvasRenderingContext2D (JS_context 0) \<and> is_HTMLImageElement (JS_image 0) \<and>
   Horn_constructor sample_page (JS_context 0) (JS_image 0) Options_null 0 zeros =
     Inl (TypeError ''Cannot destructure property width of options as it is null.'')"
  by (simp add: Horn_constructor_def)

section \<open>Drawing a horn\<close>








section \<open>The frame loop\<close>

















section \<open>Spawning\<close>

text \<open>
  Claim C1, as amended. When the constructor rejects the spawn of a trigger message,
  \<open>handleMessage\<close> does not catch the error: it returns it to its caller. The state
  of the driver is untouched: the live horns, \<open>lastTime\<close> and the requested frame
  are as before, no sound is played, and the next frame does what it would have done
  without the message.
\<close>

theorem handleMessage_failed_spawn:
  assumes "occursIn ''russmoHORN'' message \<or> occursIn ''russmoHONK'' message"
    and "handleMessage_role us rnd s = (img, audioBuffer, rnd')"
    and "Horn_constructor (page s) (canvasContext s) img Options_undefined now rnd' = Inl e"
  shows "handleMessage channel us message self now rnd s = (Some e, s) \<and>
         horns (snd (handleMessage channel us message self now rnd s)) = horns s \<and>
         lastTime (snd (handleMessage channel us message self now rnd s)) = lastTime s \<and>
         frameRequests (snd (handleMessage channel us message self now rnd s)) = frameRequests s \<and>
         played (snd (handleMessage channel us message self now rnd s)) = played s \<and>
         draw time clock (snd (handleMessage channel us message self now rnd s)) = draw time clock s"
proof -
  have "handleMessage channel us message self now rnd s = (Some e, s)"
    using assms by (simp add: handleMessage_def)
  then show ?thesis by simp
qed

theorem handleMessage_failed_spawn_witness:
  "handleMessage ''russ_money'' viewer ''Kappa russmoHORN'' False 0 zeros null_driver =
     (Some (TypeError ''Expected context to be a CanvasRenderingContext2D. Found: object''),
      null_driver)"
proof -
  have t: "occursIn ''russmoHORN'' ''Kappa russmoHORN'' \<or> occursIn ''russmoHONK'' ''Kappa russmoHORN''"
    by simp
  have r: "handleMessage_role viewer zeros null_driver = (JS_image 0, 0, zeros)"
    by (simp add: handleMessage_role_def viewer_def null_driver_def sample_driver_def)
  have c: "Horn_constructor (page null_driver) (canvasContext null_driver) (JS_image 0)
        Options_undefined 0 zeros =
      Inl (TypeError ''Expected context to be a CanvasRenderingContext2D. Found: object'')"
    by (simp add: Horn_constructor_def null_driver_def sample_driver_def)
  from handleMessage_failed_spawn [OF t r c] show ?thesis by (rule conjunct1)
qed

text \<open>
  The claim as it stands says that the driver catches the error and drops the spawn.
  With a context that is \<open>null\<close> the error of the constructor comes out of
  \<open>handleMessage\<close>.
\<close>

theorem handleMessage_uncaught_counterexample:
  "fst (handleMessage ''russ_money'' viewer ''russmoHONK'' False 0 zeros null_driver) =
     Some (TypeError ''Expected context to be a CanvasRenderingContext2D. Found: object'') \<and>
   fst (handleMessage ''russ_money'' viewer ''russmoHONK'' False 0 zeros null_driver) \<noteq> None"
  by (simp add: handleMessage_def handleMessage_role_def Horn_constructor_def viewer_def
      null_driver_def sample_driver_def)

end
